theory Spec2Isabelle
  imports Complex_Main "HOL-Library.Log_Nat"
begin

section \<open>Conventions of the embedding\<close>

text \<open>
  The development embeds \<^verbatim>\<open>scripts/match_predict.py\<close>.

  \<^item> Python numbers are modelled by the reals they denote: a float is the real it
    approximates, an \<^verbatim>\<open>int\<close> that only takes part in float arithmetic is injected
    with \<open>of_int\<close>. Minutes since midnight stay \<open>int\<close>, as in the source.
    The exception is the compensation, whose sum is rounded to two decimals: there every
    float operation rounds its exact result to the nearest double, as the machine does.
    Infinities and NaN are outside the model.
  \<^item> A Python exception is a value \<open>Inl e\<close> of \<open>py_error + 'a\<close>; the order in which
    the source evaluates its subexpressions is the order of the \<open>pbind\<close> chain.
  \<^item> A \<^verbatim>\<open>dict\<close> with uniform values is a map from key strings; the package and the
    carrier are records whose fields are \<open>None\<close> when the key is absent. A key that is
    present holds a value of the JSON type the data model gives it.
  \<^item> Functions of other libraries (\<^verbatim>\<open>geopy\<close>, \<^verbatim>\<open>json\<close>, \<^verbatim>\<open>joblib\<close>,
    \<^verbatim>\<open>sklearn\<close>) are parameters of the functions that call them.
  \<^item> Strings are ASCII.
  \<^item> Only exceptions derived from \<^verbatim>\<open>Exception\<close> are modelled; an interrupt or an exit
    request is outside the model.
\<close>

datatype py_error =
    KeyError string
  | IndexError
  | ValueError
  | ZeroDivisionError
  | ExternalError string

definition pbind :: "py_error + 'a \<Rightarrow> ('a \<Rightarrow> py_error + 'b) \<Rightarrow> py_error + 'b" where
  "pbind m f = (case m of Inl e \<Rightarrow> Inl e | Inr x \<Rightarrow> f x)"

text \<open>A list comprehension whose body may raise: the first exception, from the left, wins.\<close>

fun sequence_err :: "(py_error + 'a) list \<Rightarrow> py_error + 'a list" where
  "sequence_err [] = Inr []"
| "sequence_err (m # ms) =
     pbind m (\<lambda>x. pbind (sequence_err ms) (\<lambda>xs. Inr (x # xs)))"

text \<open>\<^verbatim>\<open>d[k]\<close> on a dict: \<^verbatim>\<open>KeyError(k)\<close> when the key is absent.\<close>

definition getitem :: "(string \<rightharpoonup> 'v) \<Rightarrow> string \<Rightarrow> py_error + 'v" where
  "getitem d k = (case d k of None \<Rightarrow> Inl (KeyError k) | Some v \<Rightarrow> Inr v)"

text \<open>The same for a key of the package or carrier record.\<close>

definition field :: "string \<Rightarrow> 'v option \<Rightarrow> py_error + 'v" where
  "field k v = (case v of None \<Rightarrow> Inl (KeyError k) | Some x \<Rightarrow> Inr x)"

text \<open>\<^verbatim>\<open>a, b = xs\<close>: \<^verbatim>\<open>ValueError\<close> unless \<open>xs\<close> has exactly two elements.\<close>

definition unpack2 :: "'a list \<Rightarrow> py_error + ('a \<times> 'a)" where
  "unpack2 xs = (case xs of [a, b] \<Rightarrow> Inr (a, b) | _ \<Rightarrow> Inl ValueError)"

text \<open>\<^verbatim>\<open>a / b\<close>: true division, \<^verbatim>\<open>ZeroDivisionError\<close> on a zero divisor.\<close>

definition py_div :: "real \<Rightarrow> real \<Rightarrow> py_error + real" where
  "py_div a b = (if b = 0 then Inl ZeroDivisionError else Inr (a / b))"

section \<open>Builtins used by the time conversion\<close>

text \<open>\<^verbatim>\<open>s.split(c)\<close> with an explicit one-character separator.\<close>

fun split_on :: "char \<Rightarrow> string \<Rightarrow> string list" where
  "split_on c [] = [[]]"
| "split_on c (x # xs) =
     (if x = c then [] # split_on c xs
      else (case split_on c xs of
              [] \<Rightarrow> [[x]]
            | p # ps \<Rightarrow> (x # p) # ps))"

text \<open>
  \<^verbatim>\<open>int(s)\<close> on a string, base ten: surrounding whitespace is stripped, then an optional
  sign, then digits, with single underscores allowed between digits. Anything else is
  \<^verbatim>\<open>ValueError\<close>. The interpreter's limit on the number of digits is not modelled.
\<close>

definition is_space :: "char \<Rightarrow> bool" where
  "is_space c = ((of_char c :: nat) \<in> {9, 10, 11, 12, 13, 32})"

definition strip :: "string \<Rightarrow> string" where
  "strip s = rev (dropWhile is_space (rev (dropWhile is_space s)))"

definition digit_val :: "char \<Rightarrow> nat option" where
  "digit_val c =
     (let n = (of_char c :: nat) in if 48 \<le> n \<and> n \<le> 57 then Some (n - 48) else None)"

fun parse_digits :: "nat \<Rightarrow> string \<Rightarrow> nat option" where
  "parse_digits acc [] = Some acc"
| "parse_digits acc [c] =
     (case digit_val c of None \<Rightarrow> None | Some v \<Rightarrow> Some (acc * 10 + v))"
| "parse_digits acc (c # d # cs) =
     (if c = CHR ''_'' then
        (case digit_val d of None \<Rightarrow> None | Some v \<Rightarrow> parse_digits (acc * 10 + v) cs)
      else
        (case digit_val c of None \<Rightarrow> None | Some v \<Rightarrow> parse_digits (acc * 10 + v) (d # cs)))"

definition parse_unsigned :: "string \<Rightarrow> nat option" where
  "parse_unsigned s =
     (case s of
        [] \<Rightarrow> None
      | c # cs \<Rightarrow> (case digit_val c of None \<Rightarrow> None | Some v \<Rightarrow> parse_digits v cs))"

definition py_int :: "string \<Rightarrow> py_error + int" where
  "py_int s =
     (case strip s of
        [] \<Rightarrow> Inl ValueError
      | c # cs \<Rightarrow>
          (if c = CHR ''-'' then
             (case parse_unsigned cs of None \<Rightarrow> Inl ValueError | Some n \<Rightarrow> Inr (- int n))
           else if c = CHR ''+'' then
             (case parse_unsigned cs of None \<Rightarrow> Inl ValueError | Some n \<Rightarrow> Inr (int n))
           else
             (case parse_unsigned (c # cs) of None \<Rightarrow> Inl ValueError | Some n \<Rightarrow> Inr (int n))))"

section \<open>Time windows\<close>

text \<open>
  \<^verbatim>\<open>hours, minutes = map(int, time_str.split(':'))\<close>: every failure (a part that is no
  integer, fewer or more than two parts) is a \<^verbatim>\<open>ValueError\<close>.
\<close>

definition time_to_minutes :: "string \<Rightarrow> py_error + int" where
  "time_to_minutes time_str =
     (case map py_int (split_on CHR '':'' time_str) of
        [h, m] \<Rightarrow> pbind h (\<lambda>hours. pbind m (\<lambda>minutes. Inr (hours * 60 + minutes)))
      | _ \<Rightarrow> Inl ValueError)"

definition calculate_window_overlap ::
  "string \<Rightarrow> string \<Rightarrow> string \<Rightarrow> string \<Rightarrow> py_error + real" where
  "calculate_window_overlap window1_start window1_end window2_start window2_end =
     pbind (time_to_minutes window1_start) (\<lambda>w1_start.
     pbind (time_to_minutes window1_end) (\<lambda>w1_end.
     pbind (time_to_minutes window2_start) (\<lambda>w2_start.
     pbind (time_to_minutes window2_end) (\<lambda>w2_end.
       let overlap_start = max w1_start w2_start;
           overlap_end = min w1_end w2_end
       in if overlap_end \<le> overlap_start then Inr 0
          else
            let overlap_duration = overlap_end - overlap_start;
                window2_duration = w2_end - w2_start
            in py_div (of_int overlap_duration) (of_int window2_duration)))))"

definition calculate_time_compatibility ::
  "(string \<rightharpoonup> string) \<Rightarrow> string list \<Rightarrow> string list \<Rightarrow> py_error + real" where
  "calculate_time_compatibility carrier_schedule pickup_window delivery_window =
     pbind (getitem carrier_schedule ''startTime'') (\<lambda>carrier_start.
     pbind (getitem carrier_schedule ''endTime'') (\<lambda>carrier_end.
     pbind (unpack2 pickup_window) (\<lambda>(pickup_start, pickup_end).
     pbind (unpack2 delivery_window) (\<lambda>(delivery_start, delivery_end).
     pbind (calculate_window_overlap carrier_start carrier_end pickup_start pickup_end)
       (\<lambda>pickup_compatibility.
     pbind (calculate_window_overlap carrier_start carrier_end delivery_start delivery_end)
       (\<lambda>delivery_compatibility.
       Inr (min pickup_compatibility delivery_compatibility)))))))"

section \<open>Route deviation\<close>

text \<open>
  \<^verbatim>\<open>geodesic(a, b).km\<close> of \<^verbatim>\<open>geopy\<close> is a parameter \<open>gd\<close>; it may raise (it rejects a
  latitude outside its range).
\<close>

type_synonym point = "real \<times> real"

type_synonym geodesic = "point \<Rightarrow> point \<Rightarrow> py_error + real"

record route_deviation =
  distance :: real
  time :: real

text \<open>\<^verbatim>\<open>(coord[0], coord[1])\<close> on a JSON array of numbers.\<close>

definition coord2 :: "real list \<Rightarrow> py_error + point" where
  "coord2 coord = (case coord of x # y # _ \<Rightarrow> Inr (x, y) | _ \<Rightarrow> Inl IndexError)"

text \<open>
  \<^verbatim>\<open>min(xs, key=f)\<close>: \<^verbatim>\<open>ValueError\<close> on an empty sequence; the keys are computed from
  left to right and a later element replaces the current one only when its key is
  strictly smaller.
\<close>

fun min_scan :: "('a \<Rightarrow> py_error + real) \<Rightarrow> 'a \<Rightarrow> real \<Rightarrow> 'a list \<Rightarrow> py_error + 'a" where
  "min_scan key best kb [] = Inr best"
| "min_scan key best kb (x # xs) =
     pbind (key x) (\<lambda>k. if k < kb then min_scan key x k xs else min_scan key best kb xs)"

definition py_min_key :: "('a \<Rightarrow> py_error + real) \<Rightarrow> 'a list \<Rightarrow> py_error + 'a" where
  "py_min_key key xs =
     (case xs of
        [] \<Rightarrow> Inl ValueError
      | x # rest \<Rightarrow> pbind (key x) (\<lambda>k. min_scan key x k rest))"

definition calculate_route_deviation ::
  "geodesic \<Rightarrow> real list list \<Rightarrow> real list \<Rightarrow> real list \<Rightarrow> py_error + route_deviation" where
  "calculate_route_deviation gd route_coords pickup_coords delivery_coords =
     pbind (sequence_err (map coord2 route_coords)) (\<lambda>route.
     pbind (coord2 pickup_coords) (\<lambda>pickup.
     pbind (coord2 delivery_coords) (\<lambda>delivery.
     pbind (py_min_key (\<lambda>point. gd point pickup) route) (\<lambda>nearest_to_pickup.
     pbind (py_min_key (\<lambda>point. gd point delivery) route) (\<lambda>nearest_to_delivery.
     pbind (gd nearest_to_pickup pickup) (\<lambda>pickup_deviation.
     pbind (gd nearest_to_delivery delivery) (\<lambda>delivery_deviation.
       let time_deviation = (pickup_deviation + delivery_deviation) / 30 * 60
       in Inr \<lparr>distance = pickup_deviation + delivery_deviation,
               time = time_deviation\<rparr>)))))))"

section \<open>Size compatibility\<close>

definition evaluate_size_compatibility ::
  "(string \<rightharpoonup> real) \<Rightarrow> (string \<rightharpoonup> real) \<Rightarrow> py_error + real" where
  "evaluate_size_compatibility vehicle_capacity package_dimensions =
     pbind (getitem vehicle_capacity ''length'') (\<lambda>vehicle_length.
     pbind (getitem vehicle_capacity ''width'') (\<lambda>vehicle_width.
     pbind (getitem vehicle_capacity ''height'') (\<lambda>vehicle_height.
     pbind (getitem vehicle_capacity ''weightLimit'') (\<lambda>vehicle_weight_limit.
     pbind (getitem package_dimensions ''length'') (\<lambda>package_length.
     pbind (getitem package_dimensions ''width'') (\<lambda>package_width.
     pbind (getitem package_dimensions ''height'') (\<lambda>package_height.
     pbind (getitem package_dimensions ''weight'') (\<lambda>package_weight.
       let dim_compatibility =
             (package_length \<le> vehicle_length \<and>
              package_width \<le> vehicle_width \<and>
              package_height \<le> vehicle_height \<and>
              package_weight \<le> vehicle_weight_limit)
       in if \<not> dim_compatibility then Inr 0
          else
            pbind (py_div (package_length * package_width * package_height)
                          (vehicle_length * vehicle_width * vehicle_height)) (\<lambda>volume_ratio.
            pbind (py_div package_weight vehicle_weight_limit) (\<lambda>weight_ratio.
              let efficiency_score = 1 - \<bar>0.3 - max volume_ratio weight_ratio\<bar>
              in Inr (max 0.1 efficiency_score)))))))))))"

section \<open>Packages, carriers and the feature vector\<close>

record package =
  p_id :: "string option"
  pickupCoordinates :: "real list option"
  deliveryCoordinates :: "real list option"
  pickupWindow :: "string list option"
  deliveryWindow :: "string list option"
  dimensions :: "(string \<rightharpoonup> real) option"
  urgency :: "string option"

record carrier =
  c_id :: "string option"
  routeCoordinates :: "real list list option"
  schedule :: "(string \<rightharpoonup> string) option"
  vehicleCapacity :: "(string \<rightharpoonup> real) option"
  rating :: "real option"
  onTimeRate :: "real option"
  completedDeliveries :: "string list option"

text \<open>\<^verbatim>\<open>d.get(k, default)\<close>.\<close>

definition get_default :: "'v option \<Rightarrow> 'v \<Rightarrow> 'v" where
  "get_default v dflt = (case v of None \<Rightarrow> dflt | Some x \<Rightarrow> x)"

definition extract_features :: "geodesic \<Rightarrow> package \<Rightarrow> carrier \<Rightarrow> py_error + real list" where
  "extract_features gd pkg car =
     pbind (field ''routeCoordinates'' (routeCoordinates car)) (\<lambda>route_coords.
     pbind (field ''pickupCoordinates'' (pickupCoordinates pkg)) (\<lambda>pickup_coords.
     pbind (field ''deliveryCoordinates'' (deliveryCoordinates pkg)) (\<lambda>delivery_coords.
     pbind (calculate_route_deviation gd route_coords pickup_coords delivery_coords)
       (\<lambda>route_dev.
     pbind (field ''schedule'' (schedule car)) (\<lambda>carrier_schedule.
     pbind (field ''pickupWindow'' (pickupWindow pkg)) (\<lambda>pickup_window.
     pbind (field ''deliveryWindow'' (deliveryWindow pkg)) (\<lambda>delivery_window.
     pbind (calculate_time_compatibility carrier_schedule pickup_window delivery_window)
       (\<lambda>time_flexibility.
     pbind (field ''vehicleCapacity'' (vehicleCapacity car)) (\<lambda>vehicle_capacity.
     pbind (field ''dimensions'' (dimensions pkg)) (\<lambda>package_dimensions.
     pbind (evaluate_size_compatibility vehicle_capacity package_dimensions)
       (\<lambda>size_compatibility.
       let carrier_rating = get_default (rating car) 0;
           carrier_reliability = get_default (onTimeRate car) 0;
           carrier_experience = length (get_default (completedDeliveries car) [])
       in Inr [distance route_dev,
               time route_dev,
               time_flexibility,
               size_compatibility,
               carrier_rating,
               carrier_reliability,
               of_nat carrier_experience])))))))))))"

section \<open>Compensation\<close>

text \<open>
  Rounding half to even, to an integer.
\<close>

definition round_half_even :: "real \<Rightarrow> int" where
  "round_half_even x =
     (let f = \<lfloor>x\<rfloor>; d = x - of_int f
      in if d < 1 / 2 then f
         else if 1 / 2 < d then f + 1
         else if even f then f else f + 1)"

text \<open>
  The floats of Python are IEEE 754 doubles. \<open>binary_exponent x\<close> is the integer \<open>e\<close>
  with \<open>2 ^ e \<le> \<bar>x\<bar> < 2 ^ (e + 1)\<close>; the doubles of that magnitude are the multiples
  of \<open>2 ^ (e - 52)\<close>, and below the normal range they are the multiples of
  \<open>2 ^ (- 1074)\<close>. \<open>to_double x\<close> is the double nearest to \<open>x\<close>, a tie going to the
  even significand: the value of the float literal \<open>x\<close>, of the conversion of the
  integer \<open>x\<close>, and of a float operation whose exact result is \<open>x\<close>. A result beyond
  the largest double, which the machine turns into an infinity, is not modelled.
\<close>

definition binary_exponent :: "real \<Rightarrow> int" where
  "binary_exponent x =
     (let a = \<bar>x\<bar>
      in if 1 \<le> a then bitlen \<lfloor>a\<rfloor> - 1 else - bitlen (\<lceil>1 / a\<rceil> - 1))"

definition to_double :: "real \<Rightarrow> real" where
  "to_double x =
     (if x = 0 then 0
      else let ulp = 2 powi (max (binary_exponent x) (- 1022) - 52)
           in of_int (round_half_even (x / ulp)) * ulp)"

text \<open>\<^verbatim>\<open>a + b\<close> and \<^verbatim>\<open>a * b\<close> on floats.\<close>

definition fadd :: "real \<Rightarrow> real \<Rightarrow> real" where
  "fadd a b = to_double (a + b)"

definition fmul :: "real \<Rightarrow> real \<Rightarrow> real" where
  "fmul a b = to_double (a * b)"

text \<open>
  \<^verbatim>\<open>round(x, n)\<close> on a float \<open>x\<close>, for \<open>n \<ge> 0\<close>: the exact value of \<open>x\<close> is rounded
  to the nearest multiple of \<open>1 / 10 ^ n\<close>, a tie going to the even one, and the result
  is the double nearest to that decimal.
\<close>

definition py_round :: "real \<Rightarrow> nat \<Rightarrow> real" where
  "py_round x n = to_double (of_int (round_half_even (x * 10 ^ n)) / 10 ^ n)"

definition urgency_premium :: "string option \<Rightarrow> real" where
  "urgency_premium u =
     (if u = Some ''high'' then 100
      else if u = Some ''medium'' then 50
      else 0)"

text \<open>
  The deviation distance is the float sum of two floats, that is the double nearest to
  the real sum that \<open>calculate_route_deviation\<close> carries; the weight is the double that
  \<^verbatim>\<open>json.loads\<close> reads (an \<^verbatim>\<open>int\<close> weight below \<open>2 ^ 53\<close> in magnitude is converted
  without error when it meets a float).
\<close>

definition calculate_compensation :: "geodesic \<Rightarrow> package \<Rightarrow> carrier \<Rightarrow> py_error + real" where
  "calculate_compensation gd pkg car =
     pbind (field ''routeCoordinates'' (routeCoordinates car)) (\<lambda>route_coords.
     pbind (field ''pickupCoordinates'' (pickupCoordinates pkg)) (\<lambda>pickup_coords.
     pbind (field ''deliveryCoordinates'' (deliveryCoordinates pkg)) (\<lambda>delivery_coords.
     pbind (calculate_route_deviation gd route_coords pickup_coords delivery_coords)
       (\<lambda>deviation.
       let base_rate = 50;
           deviation_compensation = fmul (to_double (distance deviation)) 10
       in pbind (field ''dimensions'' (dimensions pkg)) (\<lambda>dims.
          pbind (getitem dims ''weight'') (\<lambda>weight.
            let weight_factor = fmul (to_double weight) 5;
                total_compensation =
                  fadd (fadd (fadd base_rate deviation_compensation) weight_factor)
                    (urgency_premium (urgency pkg))
            in Inr (py_round total_compensation 2)))))))"

section \<open>The two entry points\<close>

record match_result =
  carrierId :: string
  packageId :: string
  matchScore :: real
  compensation :: real
  routeDeviation :: route_deviation

text \<open>
  The JSON text an entry point returns: the match object, the training acknowledgement
  \<^verbatim>\<open>{'success': True, 'message': m}\<close>, or \<^verbatim>\<open>{'error': str(e)}\<close> for the exception \<open>e\<close>
  that was caught.
\<close>

datatype json_reply =
    MatchJson match_result
  | SuccessJson string
  | ErrorJson py_error

text \<open>
  The body of the \<^verbatim>\<open>try\<close> block of \<^verbatim>\<open>predict_match\<close>. \<open>loads_package\<close> and
  \<open>loads_carrier\<close> are \<^verbatim>\<open>json.loads\<close> read at the package and the carrier type,
  \<open>load_model\<close> is \<^verbatim>\<open>joblib.load\<close> and \<open>predict_proba m fs\<close> is
  \<^verbatim>\<open>float(m.predict_proba(np.array(fs).reshape(1, -1))[0][1])\<close>.
\<close>

definition predict_match_try ::
  "geodesic \<Rightarrow> (string \<Rightarrow> py_error + package) \<Rightarrow> (string \<Rightarrow> py_error + carrier) \<Rightarrow>
   (string \<Rightarrow> py_error + 'm) \<Rightarrow> ('m \<Rightarrow> real list \<Rightarrow> py_error + real) \<Rightarrow>
   string \<Rightarrow> string \<Rightarrow> string \<Rightarrow> py_error + match_result" where
  "predict_match_try gd loads_package loads_carrier load_model predict_proba
       model_path package_json carrier_json =
     pbind (loads_package package_json) (\<lambda>pkg.
     pbind (loads_carrier carrier_json) (\<lambda>car.
     pbind (load_model model_path) (\<lambda>model.
     pbind (extract_features gd pkg car) (\<lambda>features.
     pbind (predict_proba model features) (\<lambda>match_score.
     pbind (calculate_compensation gd pkg car) (\<lambda>comp.
     pbind (field ''routeCoordinates'' (routeCoordinates car)) (\<lambda>route_coords.
     pbind (field ''pickupCoordinates'' (pickupCoordinates pkg)) (\<lambda>pickup_coords.
     pbind (field ''deliveryCoordinates'' (deliveryCoordinates pkg)) (\<lambda>delivery_coords.
     pbind (calculate_route_deviation gd route_coords pickup_coords delivery_coords)
       (\<lambda>route_dev.
     pbind (field ''id'' (c_id car)) (\<lambda>cid.
     pbind (field ''id'' (p_id pkg)) (\<lambda>pid.
       Inr \<lparr>carrierId = cid,
            packageId = pid,
            matchScore = match_score,
            compensation = comp,
            routeDeviation = route_dev\<rparr>))))))))))))"

text \<open>\<^verbatim>\<open>try: ... return json.dumps(result)  except Exception as e: return json.dumps({'error': str(e)})\<close>\<close>

definition predict_match ::
  "geodesic \<Rightarrow> (string \<Rightarrow> py_error + package) \<Rightarrow> (string \<Rightarrow> py_error + carrier) \<Rightarrow>
   (string \<Rightarrow> py_error + 'm) \<Rightarrow> ('m \<Rightarrow> real list \<Rightarrow> py_error + real) \<Rightarrow>
   string \<Rightarrow> string \<Rightarrow> string \<Rightarrow> json_reply" where
  "predict_match gd loads_package loads_carrier load_model predict_proba
       model_path package_json carrier_json =
     (case predict_match_try gd loads_package loads_carrier load_model predict_proba
             model_path package_json carrier_json of
        Inr result \<Rightarrow> MatchJson result
      | Inl e \<Rightarrow> ErrorJson e)"

record training_example =
  ex_package :: "package option"
  ex_carrier :: "carrier option"
  ex_success :: "bool option"

text \<open>The loop of \<^verbatim>\<open>train_model\<close> over the training data, appending to \<open>X\<close> and \<open>y\<close>.\<close>

fun collect_examples ::
  "geodesic \<Rightarrow> training_example list \<Rightarrow> real list list \<Rightarrow> bool list \<Rightarrow>
   py_error + (real list list \<times> bool list)" where
  "collect_examples gd [] X y = Inr (X, y)"
| "collect_examples gd (m # ms) X y =
     pbind (field ''package'' (ex_package m)) (\<lambda>pkg.
     pbind (field ''carrier'' (ex_carrier m)) (\<lambda>car.
     pbind (extract_features gd pkg car) (\<lambda>features.
     pbind (field ''success'' (ex_success m)) (\<lambda>outcome.
       collect_examples gd ms (X @ [features]) (y @ [outcome])))))"

text \<open>
  The body of the \<^verbatim>\<open>try\<close> block of \<^verbatim>\<open>train_model\<close>, over a file system \<open>fs\<close>.
  \<open>load_training fs path\<close> is \<^verbatim>\<open>open\<close> followed by \<^verbatim>\<open>json.load\<close>, \<open>fit X y\<close> builds and
  fits the pipeline, and \<open>dump fs model path\<close> is \<^verbatim>\<open>joblib.dump\<close>: it returns the file
  system it leaves behind, with the exception it raised if it failed.
\<close>

definition train_model_try ::
  "geodesic \<Rightarrow> ('fs \<Rightarrow> string \<Rightarrow> py_error + training_example list) \<Rightarrow>
   (real list list \<Rightarrow> bool list \<Rightarrow> py_error + 'm) \<Rightarrow>
   ('fs \<Rightarrow> 'm \<Rightarrow> string \<Rightarrow> py_error option \<times> 'fs) \<Rightarrow>
   'fs \<Rightarrow> string \<Rightarrow> string \<Rightarrow> (py_error + string) \<times> 'fs" where
  "train_model_try gd load_training fit dump fs training_data_path model_path =
     (case load_training fs training_data_path of
        Inl e \<Rightarrow> (Inl e, fs)
      | Inr training_data \<Rightarrow>
          (case collect_examples gd training_data [] [] of
             Inl e \<Rightarrow> (Inl e, fs)
           | Inr (X, y) \<Rightarrow>
               (case fit X y of
                  Inl e \<Rightarrow> (Inl e, fs)
                | Inr model \<Rightarrow>
                    (case dump fs model model_path of
                       (Some e, fs') \<Rightarrow> (Inl e, fs')
                     | (None, fs') \<Rightarrow> (Inr ''Model trained successfully'', fs')))))"

definition train_model ::
  "geodesic \<Rightarrow> ('fs \<Rightarrow> string \<Rightarrow> py_error + training_example list) \<Rightarrow>
   (real list list \<Rightarrow> bool list \<Rightarrow> py_error + 'm) \<Rightarrow>
   ('fs \<Rightarrow> 'm \<Rightarrow> string \<Rightarrow> py_error option \<times> 'fs) \<Rightarrow>
   'fs \<Rightarrow> string \<Rightarrow> string \<Rightarrow> json_reply \<times> 'fs" where
  "train_model gd load_training fit dump fs training_data_path model_path =
     (case train_model_try gd load_training fit dump fs training_data_path model_path of
        (Inr message, fs') \<Rightarrow> (SuccessJson message, fs')
      | (Inl e, fs') \<Rightarrow> (ErrorJson e, fs'))"

section \<open>Sample data\<close>

text \<open>A carrier schedule from 10:00 to 12:00.\<close>

definition sched0 :: "string \<rightharpoonup> string" where
  "sched0 = [''startTime'' \<mapsto> ''10:00'', ''endTime'' \<mapsto> ''12:00'']"

text \<open>A vehicle of 2 by 1 by 1 carrying up to 100, a parcel that fits and a crate too long.\<close>

definition van :: "string \<rightharpoonup> real" where
  "van = [''length'' \<mapsto> 2, ''width'' \<mapsto> 1, ''height'' \<mapsto> 1, ''weightLimit'' \<mapsto> 100]"

definition parcel :: "string \<rightharpoonup> real" where
  "parcel = [''length'' \<mapsto> 1, ''width'' \<mapsto> 1, ''height'' \<mapsto> 1, ''weight'' \<mapsto> 10]"

definition crate :: "string \<rightharpoonup> real" where
  "crate = [''length'' \<mapsto> 3, ''width'' \<mapsto> 1, ''height'' \<mapsto> 1, ''weight'' \<mapsto> 10]"

text \<open>
  A stand-in for the geodesic distance (the sum of the coordinate differences) and a
  route of three points.
\<close>

definition grid_distance :: geodesic where
  "grid_distance a b = Inr (\<bar>fst a - fst b\<bar> + \<bar>snd a - snd b\<bar>)"

definition route3 :: "real list list" where
  "route3 = [[0, 0], [1, 1], [5, 5]]"

text \<open>A package and two carriers; the second carrier lacks the optional and the scoring fields.\<close>

definition pkg0 :: package where
  "pkg0 = \<lparr>p_id = Some ''p1'',
           pickupCoordinates = Some [1, 2],
           deliveryCoordinates = Some [1, 1],
           pickupWindow = Some [''09:00'', ''17:00''],
           deliveryWindow = Some [''10:00'', ''12:00''],
           dimensions = Some parcel,
           urgency = Some ''high''\<rparr>"

definition car0 :: carrier where
  "car0 = \<lparr>c_id = Some ''c1'',
           routeCoordinates = Some [[0, 0]],
           schedule = Some sched0,
           vehicleCapacity = Some van,
           rating = None,
           onTimeRate = Some 0.9,
           completedDeliveries = None\<rparr>"

definition car1 :: carrier where
  "car1 = \<lparr>c_id = Some ''c2'',
           routeCoordinates = Some [[2, 3]],
           schedule = None,
           vehicleCapacity = None,
           rating = Some 4.5,
           onTimeRate = None,
           completedDeliveries = Some [''d1'', ''d2'']\<rparr>"

text \<open>Stand-ins for the JSON parser, the model store, the classifier and the training files.\<close>

definition sample_loads_package :: "string \<Rightarrow> py_error + package" where
  "sample_loads_package s =
     (if s = ''pkg0'' then Inr pkg0 else Inl (ExternalError ''JSONDecodeError''))"

definition sample_loads_carrier :: "string \<Rightarrow> py_error + carrier" where
  "sample_loads_carrier s =
     (if s = ''car0'' then Inr car0 else Inl (ExternalError ''JSONDecodeError''))"

definition sample_load_model :: "string \<Rightarrow> py_error + unit" where
  "sample_load_model path =
     (if path = ''model.joblib'' then Inr () else Inl (ExternalError ''FileNotFoundError''))"

definition sample_predict_proba :: "unit \<Rightarrow> real list \<Rightarrow> py_error + real" where
  "sample_predict_proba m features = Inr (1 / 2)"

definition sample_load_training :: "string list \<Rightarrow> string \<Rightarrow> py_error + training_example list" where
  "sample_load_training fs path =
     (if path \<in> set fs
      then Inr [\<lparr>ex_package = Some pkg0, ex_carrier = Some car0, ex_success = Some True\<rparr>]
      else Inl (ExternalError ''FileNotFoundError''))"

definition sample_fit :: "real list list \<Rightarrow> bool list \<Rightarrow> py_error + unit" where
  "sample_fit X y = (if X = [] then Inl ValueError else Inr ())"

definition sample_dump :: "string list \<Rightarrow> unit \<Rightarrow> string \<Rightarrow> py_error option \<times> string list" where
  "sample_dump fs m path = (None, path # fs)"

section \<open>Basic facts\<close>

lemma pbind_Inr [simp]: "pbind (Inr x) f = f x"
  by (simp add: pbind_def)

lemma pbind_Inl [simp]: "pbind (Inl e) f = Inl e"
  by (simp add: pbind_def)

lemma t0900: "time_to_minutes ''09:00'' = Inr 540"
  by code_simp

lemma t1000: "time_to_minutes ''10:00'' = Inr 600"
  by code_simp

lemma t1200: "time_to_minutes ''12:00'' = Inr 720"
  by code_simp

lemma t1700: "time_to_minutes ''17:00'' = Inr 1020"
  by code_simp

section \<open>Window overlap\<close>

text \<open>
  Once the four strings are read as minutes, the overlap is decided by the two
  comparisons of the source. The division is reached only when
  \<open>max a1 b1 < min a2 b2\<close>, which forces \<open>b1 < b2\<close>: the divisor is never zero there.
\<close>

lemma window_overlap_value:
  assumes "time_to_minutes sA = Inr a1" and "time_to_minutes eA = Inr a2"
    and "time_to_minutes sB = Inr b1" and "time_to_minutes eB = Inr b2"
  shows "calculate_window_overlap sA eA sB eB =
           Inr (if min a2 b2 \<le> max a1 b1 then 0
                else real_of_int (min a2 b2 - max a1 b1) / real_of_int (b2 - b1))"
proof (cases "min a2 b2 \<le> max a1 b1")
  case True
  then show ?thesis
    using assms by (simp add: calculate_window_overlap_def Let_def)
next
  case False
  then have "b1 < b2" by linarith
  then have "real_of_int (b2 - b1) \<noteq> 0" by simp
  with False show ?thesis
    using assms by (simp add: calculate_window_overlap_def Let_def py_div_def)
qed

lemma overlap_ratio_bounds:
  fixes a1 a2 b1 b2 :: int
  assumes "\<not> min a2 b2 \<le> max a1 b1"
  shows "0 \<le> real_of_int (min a2 b2 - max a1 b1) / real_of_int (b2 - b1)"
    and "real_of_int (min a2 b2 - max a1 b1) / real_of_int (b2 - b1) \<le> 1"
proof -
  from assms have pos: "0 < b2 - b1" and le: "min a2 b2 - max a1 b1 \<le> b2 - b1"
    and nn: "0 \<le> min a2 b2 - max a1 b1"
    by linarith+
  show "0 \<le> real_of_int (min a2 b2 - max a1 b1) / real_of_int (b2 - b1)"
    using pos nn by simp
  show "real_of_int (min a2 b2 - max a1 b1) / real_of_int (b2 - b1) \<le> 1"
    using pos le by (simp add: divide_le_eq_1)
qed

text \<open>
  C5. For windows A = (sA, eA) and B = (sB, eB) that read as the minutes a1, a2 and
  b1, b2, \<open>calculate_window_overlap\<close> returns 0 when \<open>min a2 b2 \<le> max a1 b1\<close>, in
  particular when the windows do not intersect (A ends no later than B starts, or B
  ends no later than A starts), and otherwise returns
  \<open>(min a2 b2 - max a1 b1) / (b2 - b1)\<close>. This holds for every duration of B, so in
  particular for a B of positive duration.
\<close>

theorem window_overlap_formula:
  assumes "time_to_minutes sA = Inr a1" and "time_to_minutes eA = Inr a2"
    and "time_to_minutes sB = Inr b1" and "time_to_minutes eB = Inr b2"
  shows "calculate_window_overlap sA eA sB eB =
           Inr (if min a2 b2 \<le> max a1 b1 then 0
                else real_of_int (min a2 b2 - max a1 b1) / real_of_int (b2 - b1))
         \<and> (a2 \<le> b1 \<or> b2 \<le> a1 \<longrightarrow> calculate_window_overlap sA eA sB eB = Inr 0)"
  using window_overlap_value [OF assms] by auto

theorem window_overlap_formula_witness:
  "time_to_minutes ''09:00'' = Inr 540 \<and> time_to_minutes ''17:00'' = Inr 1020
   \<and> time_to_minutes ''10:00'' = Inr 600 \<and> time_to_minutes ''12:00'' = Inr 720
   \<and> calculate_window_overlap ''10:00'' ''12:00'' ''09:00'' ''17:00'' = Inr (1 / 4)
   \<and> calculate_window_overlap ''09:00'' ''10:00'' ''12:00'' ''17:00'' = Inr 0"
  using window_overlap_formula [OF t1000 t1200 t0900 t1700]
    window_overlap_formula [OF t0900 t1000 t1200 t1700] t0900 t1700 t1000 t1200
  by simp

text \<open>
  C8. \<open>calculate_window_overlap\<close> is not symmetric: the window 09:00 to 17:00 covers
  the whole of the window 10:00 to 12:00, while the latter covers a quarter of the
  former; the two windows last eight and two hours.
\<close>

theorem window_overlap_asymmetric:
  "calculate_window_overlap ''09:00'' ''17:00'' ''10:00'' ''12:00'' = Inr 1
   \<and> calculate_window_overlap ''10:00'' ''12:00'' ''09:00'' ''17:00'' = Inr (1 / 4)
   \<and> (\<exists>sA eA sB eB.
         calculate_window_overlap sA eA sB eB \<noteq> calculate_window_overlap sB eB sA eA)"
proof -
  have 1: "calculate_window_overlap ''09:00'' ''17:00'' ''10:00'' ''12:00'' = Inr 1"
    using window_overlap_value [OF t0900 t1700 t1000 t1200] by simp
  have 2: "calculate_window_overlap ''10:00'' ''12:00'' ''09:00'' ''17:00'' = Inr (1 / 4)"
    using window_overlap_value [OF t1000 t1200 t0900 t1700] by simp
  from 1 2 have "calculate_window_overlap ''09:00'' ''17:00'' ''10:00'' ''12:00''
      \<noteq> calculate_window_overlap ''10:00'' ''12:00'' ''09:00'' ''17:00''"
    by simp
  then have "\<exists>sA eA sB eB.
      calculate_window_overlap sA eA sB eB \<noteq> calculate_window_overlap sB eB sA eA"
    by blast
  with 1 2 show ?thesis by simp
qed

lemma window_overlap_range:
  assumes "time_to_minutes sA = Inr a1" and "time_to_minutes eA = Inr a2"
    and "time_to_minutes sB = Inr b1" and "time_to_minutes eB = Inr b2"
  shows "\<exists>r. calculate_window_overlap sA eA sB eB = Inr r \<and> 0 \<le> r \<and> r \<le> 1"
proof (cases "min a2 b2 \<le> max a1 b1")
  case True
  then show ?thesis
    using window_overlap_value [OF assms] by simp
next
  case False
  then show ?thesis
    using window_overlap_value [OF assms] overlap_ratio_bounds [OF False] by simp
qed

section \<open>Time compatibility\<close>

lemma time_compatibility_value:
  assumes "carrier_schedule ''startTime'' = Some cs"
    and "carrier_schedule ''endTime'' = Some ce"
    and "calculate_window_overlap cs ce ps pe = Inr p"
    and "calculate_window_overlap cs ce ds de = Inr d"
  shows "calculate_time_compatibility carrier_schedule [ps, pe] [ds, de] = Inr (min p d)"
  using assms by (simp add: calculate_time_compatibility_def getitem_def unpack2_def)

lemma sched0_start: "sched0 ''startTime'' = Some ''10:00''"
  by (simp add: sched0_def)

lemma sched0_end: "sched0 ''endTime'' = Some ''12:00''"
  by (simp add: sched0_def)

lemma overlap_quarter:
  "calculate_window_overlap ''10:00'' ''12:00'' ''09:00'' ''17:00'' = Inr (1 / 4)"
  using window_overlap_value [OF t1000 t1200 t0900 t1700] by simp

lemma overlap_full:
  "calculate_window_overlap ''10:00'' ''12:00'' ''10:00'' ''12:00'' = Inr 1"
  using window_overlap_value [OF t1000 t1200 t1000 t1200] by simp

text \<open>
  C6. For a carrier schedule with a start and an end time, a pickup window and a
  delivery window, when the overlap of the carrier window with the pickup window is
  \<open>p\<close> and its overlap with the delivery window is \<open>d\<close>,
  \<open>calculate_time_compatibility\<close> returns \<open>min p d\<close>: the weaker leg is the result.
\<close>

theorem time_compatibility_is_min:
  assumes "carrier_schedule ''startTime'' = Some cs"
    and "carrier_schedule ''endTime'' = Some ce"
    and "calculate_window_overlap cs ce ps pe = Inr p"
    and "calculate_window_overlap cs ce ds de = Inr d"
  shows "calculate_time_compatibility carrier_schedule [ps, pe] [ds, de] = Inr (min p d)
         \<and> (p \<le> d \<longrightarrow>
              calculate_time_compatibility carrier_schedule [ps, pe] [ds, de] = Inr p)
         \<and> (d \<le> p \<longrightarrow>
              calculate_time_compatibility carrier_schedule [ps, pe] [ds, de] = Inr d)"
  using time_compatibility_value [OF assms] by (auto simp: min_def)

theorem time_compatibility_is_min_witness:
  "sched0 ''startTime'' = Some ''10:00'' \<and> sched0 ''endTime'' = Some ''12:00''
   \<and> calculate_window_overlap ''10:00'' ''12:00'' ''09:00'' ''17:00'' = Inr (1 / 4)
   \<and> calculate_window_overlap ''10:00'' ''12:00'' ''10:00'' ''12:00'' = Inr 1
   \<and> calculate_time_compatibility sched0 [''09:00'', ''17:00''] [''10:00'', ''12:00'']
       = Inr (1 / 4)"
  using time_compatibility_is_min [OF sched0_start sched0_end overlap_quarter overlap_full]
    sched0_start sched0_end overlap_quarter overlap_full
  by simp

text \<open>
  C10. Whenever the four time strings read as minutes, \<open>calculate_window_overlap\<close>
  returns a value between 0 and 1; and whenever the schedule has its two times and the
  six time strings read as minutes, \<open>calculate_time_compatibility\<close> returns a value
  between 0 and 1. Nothing is assumed of the duration of the second window; a second
  window of positive duration is a special case.
\<close>

theorem overlap_in_unit_interval:
  "(time_to_minutes sA = Inr a1 \<and> time_to_minutes eA = Inr a2
      \<and> time_to_minutes sB = Inr b1 \<and> time_to_minutes eB = Inr b2
    \<longrightarrow> (\<exists>r. calculate_window_overlap sA eA sB eB = Inr r \<and> 0 \<le> r \<and> r \<le> 1))
   \<and> (carrier_schedule ''startTime'' = Some cs \<and> carrier_schedule ''endTime'' = Some ce
      \<and> time_to_minutes cs = Inr c1 \<and> time_to_minutes ce = Inr c2
      \<and> time_to_minutes ps = Inr p1 \<and> time_to_minutes pe = Inr p2
      \<and> time_to_minutes ds = Inr d1 \<and> time_to_minutes de = Inr d2
    \<longrightarrow> (\<exists>t. calculate_time_compatibility carrier_schedule [ps, pe] [ds, de] = Inr t
              \<and> 0 \<le> t \<and> t \<le> 1))"
proof (intro conjI impI)
  assume "time_to_minutes sA = Inr a1 \<and> time_to_minutes eA = Inr a2
      \<and> time_to_minutes sB = Inr b1 \<and> time_to_minutes eB = Inr b2"
  then show "\<exists>r. calculate_window_overlap sA eA sB eB = Inr r \<and> 0 \<le> r \<and> r \<le> 1"
    using window_overlap_range by blast
next
  assume h: "carrier_schedule ''startTime'' = Some cs \<and> carrier_schedule ''endTime'' = Some ce
      \<and> time_to_minutes cs = Inr c1 \<and> time_to_minutes ce = Inr c2
      \<and> time_to_minutes ps = Inr p1 \<and> time_to_minutes pe = Inr p2
      \<and> time_to_minutes ds = Inr d1 \<and> time_to_minutes de = Inr d2"
  then obtain p where p: "calculate_window_overlap cs ce ps pe = Inr p" "0 \<le> p" "p \<le> 1"
    using window_overlap_range [of cs c1 ce c2 ps p1 pe p2] by blast
  from h obtain d where d: "calculate_window_overlap cs ce ds de = Inr d" "0 \<le> d" "d \<le> 1"
    using window_overlap_range [of cs c1 ce c2 ds d1 de d2] by blast
  from h have "calculate_time_compatibility carrier_schedule [ps, pe] [ds, de] = Inr (min p d)"
    using time_compatibility_value [OF _ _ p(1) d(1)] by blast
  with p d show "\<exists>t. calculate_time_compatibility carrier_schedule [ps, pe] [ds, de] = Inr t
              \<and> 0 \<le> t \<and> t \<le> 1"
    by (simp add: min_def)
qed

theorem overlap_in_unit_interval_witness:
  "time_to_minutes ''09:00'' = Inr 540 \<and> time_to_minutes ''17:00'' = Inr 1020
   \<and> time_to_minutes ''10:00'' = Inr 600 \<and> time_to_minutes ''12:00'' = Inr 720
   \<and> sched0 ''startTime'' = Some ''10:00'' \<and> sched0 ''endTime'' = Some ''12:00''
   \<and> (\<exists>r. calculate_window_overlap ''10:00'' ''12:00'' ''09:00'' ''17:00'' = Inr r
          \<and> 0 \<le> r \<and> r \<le> 1)
   \<and> (\<exists>t. calculate_time_compatibility sched0 [''09:00'', ''17:00''] [''10:00'', ''12:00'']
            = Inr t \<and> 0 \<le> t \<and> t \<le> 1)"
  using overlap_in_unit_interval [of "''10:00''" 600 "''12:00''" 720 "''09:00''" 540
      "''17:00''" 1020 sched0 "''10:00''" "''12:00''" 600 720 "''09:00''" 540 "''17:00''" 1020
      "''10:00''" 600 "''12:00''" 720]
    sched0_start sched0_end t0900 t1000 t1200 t1700
  by simp

section \<open>Size compatibility score\<close>

lemma size_unfit:
  assumes "vc ''length'' = Some vl" and "vc ''width'' = Some vw" and "vc ''height'' = Some vh"
    and "vc ''weightLimit'' = Some vwl"
    and "pd ''length'' = Some pl" and "pd ''width'' = Some pw" and "pd ''height'' = Some ph"
    and "pd ''weight'' = Some pwt"
    and "\<not> (pl \<le> vl \<and> pw \<le> vw \<and> ph \<le> vh \<and> pwt \<le> vwl)"
  shows "evaluate_size_compatibility vc pd = Inr 0"
  using assms by (simp add: evaluate_size_compatibility_def getitem_def)

lemma size_fit:
  assumes "vc ''length'' = Some vl" and "vc ''width'' = Some vw" and "vc ''height'' = Some vh"
    and "vc ''weightLimit'' = Some vwl"
    and "pd ''length'' = Some pl" and "pd ''width'' = Some pw" and "pd ''height'' = Some ph"
    and "pd ''weight'' = Some pwt"
    and "pl \<le> vl \<and> pw \<le> vw \<and> ph \<le> vh \<and> pwt \<le> vwl"
    and "vl * vw * vh \<noteq> 0" and "vwl \<noteq> 0"
  shows "evaluate_size_compatibility vc pd =
           Inr (max 0.1 (1 - \<bar>0.3 - max (pl * pw * ph / (vl * vw * vh)) (pwt / vwl)\<bar>))"
  using assms by (simp add: evaluate_size_compatibility_def getitem_def py_div_def Let_def)

text \<open>
  Outside the data model: a vehicle with weight limit 0 and a package of weight 0 that
  fits make the weight ratio raise.
\<close>

lemma size_zero_weight_limit_raises:
  assumes "vc ''length'' = Some vl" and "vc ''width'' = Some vw" and "vc ''height'' = Some vh"
    and "vc ''weightLimit'' = Some 0"
    and "pd ''length'' = Some pl" and "pd ''width'' = Some pw" and "pd ''height'' = Some ph"
    and "pd ''weight'' = Some 0"
    and "pl \<le> vl \<and> pw \<le> vw \<and> ph \<le> vh"
  shows "evaluate_size_compatibility vc pd = Inl ZeroDivisionError"
  using assms by (simp add: evaluate_size_compatibility_def getitem_def py_div_def Let_def)

lemma van_keys:
  "van ''length'' = Some 2" "van ''width'' = Some 1" "van ''height'' = Some 1"
  "van ''weightLimit'' = Some 100"
  by (simp_all add: van_def)

lemma parcel_keys:
  "parcel ''length'' = Some 1" "parcel ''width'' = Some 1" "parcel ''height'' = Some 1"
  "parcel ''weight'' = Some 10"
  by (simp_all add: parcel_def)

lemma crate_keys:
  "crate ''length'' = Some 3" "crate ''width'' = Some 1" "crate ''height'' = Some 1"
  "crate ''weight'' = Some 10"
  by (simp_all add: crate_def)

text \<open>
  C3. For a vehicle capacity with positive length, width, height and weight limit (the
  data model's vehicle) and package dimensions with all four keys,
  \<open>evaluate_size_compatibility\<close> returns exactly 0 when the package exceeds the
  vehicle on any of the four axes; otherwise it returns
  \<open>max 0.1 (1 - |0.3 - max (packageVolume / vehicleVolume) (packageWeight / weightLimit)|)\<close>,
  which is at least 0.1.
\<close>

theorem size_compatibility_formula:
  assumes "vc ''length'' = Some vl" and "vc ''width'' = Some vw" and "vc ''height'' = Some vh"
    and "vc ''weightLimit'' = Some vwl"
    and "pd ''length'' = Some pl" and "pd ''width'' = Some pw" and "pd ''height'' = Some ph"
    and "pd ''weight'' = Some pwt"
    and "0 < vl" and "0 < vw" and "0 < vh" and "0 < vwl"
  shows "(vl < pl \<or> vw < pw \<or> vh < ph \<or> vwl < pwt \<longrightarrow>
            evaluate_size_compatibility vc pd = Inr 0)
         \<and> (pl \<le> vl \<and> pw \<le> vw \<and> ph \<le> vh \<and> pwt \<le> vwl \<longrightarrow>
            evaluate_size_compatibility vc pd =
              Inr (max 0.1 (1 - \<bar>0.3 - max (pl * pw * ph / (vl * vw * vh)) (pwt / vwl)\<bar>))
            \<and> (\<exists>s. evaluate_size_compatibility vc pd = Inr s \<and> 0.1 \<le> s))"
proof (intro conjI impI)
  assume "vl < pl \<or> vw < pw \<or> vh < ph \<or> vwl < pwt"
  then have "\<not> (pl \<le> vl \<and> pw \<le> vw \<and> ph \<le> vh \<and> pwt \<le> vwl)"
    by auto
  then show "evaluate_size_compatibility vc pd = Inr 0"
    using size_unfit [OF assms(1-8)] by blast
next
  assume fit: "pl \<le> vl \<and> pw \<le> vw \<and> ph \<le> vh \<and> pwt \<le> vwl"
  have nz: "vl * vw * vh \<noteq> 0" "vwl \<noteq> 0"
    using assms(9-12) by auto
  show v: "evaluate_size_compatibility vc pd =
      Inr (max 0.1 (1 - \<bar>0.3 - max (pl * pw * ph / (vl * vw * vh)) (pwt / vwl)\<bar>))"
    using size_fit [OF assms(1-8) fit nz] .
  have "(0.1::real) \<le> max 0.1 (1 - \<bar>0.3 - max (pl * pw * ph / (vl * vw * vh)) (pwt / vwl)\<bar>)"
    by (rule max.cobounded1)
  with v show "\<exists>s. evaluate_size_compatibility vc pd = Inr s \<and> 0.1 \<le> s"
    by blast
qed

theorem size_compatibility_formula_witness:
  "van ''length'' = Some 2 \<and> van ''width'' = Some 1 \<and> van ''height'' = Some 1
   \<and> van ''weightLimit'' = Some 100
   \<and> parcel ''length'' = Some 1 \<and> parcel ''width'' = Some 1 \<and> parcel ''height'' = Some 1
   \<and> parcel ''weight'' = Some 10
   \<and> crate ''length'' = Some 3 \<and> crate ''width'' = Some 1 \<and> crate ''height'' = Some 1
   \<and> crate ''weight'' = Some 10
   \<and> evaluate_size_compatibility van parcel = Inr (4 / 5)
   \<and> evaluate_size_compatibility van crate = Inr 0"
  using size_compatibility_formula [OF van_keys parcel_keys]
    size_compatibility_formula [OF van_keys crate_keys] van_keys parcel_keys crate_keys
  by simp

section \<open>Nearest route points\<close>

lemma min_scan_spec:
  assumes "\<forall>x\<in>set xs. key x = Inr (kf x)"
  shows "\<exists>r. min_scan key best (kf best) xs = Inr r
           \<and> kf r \<le> kf best \<and> (\<forall>x\<in>set xs. kf r \<le> kf x)
           \<and> ((r = best \<and> (\<forall>x\<in>set xs. kf best \<le> kf x))
              \<or> (\<exists>ys zs. xs = ys @ r # zs \<and> (\<forall>y\<in>set ys. kf r < kf y) \<and> kf r < kf best))"
  using assms
proof (induction xs arbitrary: best)
  case Nil
  then show ?case by simp
next
  case (Cons x xs)
  have kx: "key x = Inr (kf x)" and rest: "\<forall>y\<in>set xs. key y = Inr (kf y)"
    using Cons.prems by simp_all
  show ?case
  proof (cases "kf x < kf best")
    case True
    from Cons.IH [OF rest, of x] obtain r where
      r: "min_scan key x (kf x) xs = Inr r" "kf r \<le> kf x" "\<forall>y\<in>set xs. kf r \<le> kf y"
      and alt: "(r = x \<and> (\<forall>y\<in>set xs. kf x \<le> kf y))
          \<or> (\<exists>ys zs. xs = ys @ r # zs \<and> (\<forall>y\<in>set ys. kf r < kf y) \<and> kf r < kf x)"
      by blast
    have run: "min_scan key best (kf best) (x # xs) = Inr r"
      using True kx r(1) by simp
    have lt: "kf r < kf best" using r(2) True by linarith
    have split: "\<exists>ys zs. x # xs = ys @ r # zs \<and> (\<forall>y\<in>set ys. kf r < kf y)"
    proof (rule disjE [OF alt])
      assume "r = x \<and> (\<forall>y\<in>set xs. kf x \<le> kf y)"
      then have "x # xs = [] @ r # xs \<and> (\<forall>y\<in>set []. kf r < kf y)" by simp
      then show ?thesis by blast
    next
      assume "\<exists>ys zs. xs = ys @ r # zs \<and> (\<forall>y\<in>set ys. kf r < kf y) \<and> kf r < kf x"
      then obtain ys zs where "xs = ys @ r # zs" "\<forall>y\<in>set ys. kf r < kf y" "kf r < kf x"
        by blast
      then have "x # xs = (x # ys) @ r # zs \<and> (\<forall>y\<in>set (x # ys). kf r < kf y)" by simp
      then show ?thesis by blast
    qed
    from run r lt split show ?thesis by auto
  next
    case False
    from Cons.IH [OF rest, of best] obtain r where
      r: "min_scan key best (kf best) xs = Inr r" "kf r \<le> kf best" "\<forall>y\<in>set xs. kf r \<le> kf y"
      and alt: "(r = best \<and> (\<forall>y\<in>set xs. kf best \<le> kf y))
          \<or> (\<exists>ys zs. xs = ys @ r # zs \<and> (\<forall>y\<in>set ys. kf r < kf y) \<and> kf r < kf best)"
      by blast
    have run: "min_scan key best (kf best) (x # xs) = Inr r"
      using False kx r(1) by simp
    have lex: "kf r \<le> kf x" using r(2) False by linarith
    have alt': "(r = best \<and> (\<forall>y\<in>set (x # xs). kf best \<le> kf y))
          \<or> (\<exists>ys zs. x # xs = ys @ r # zs \<and> (\<forall>y\<in>set ys. kf r < kf y) \<and> kf r < kf best)"
    proof (rule disjE [OF alt])
      assume "r = best \<and> (\<forall>y\<in>set xs. kf best \<le> kf y)"
      then show ?thesis using False by auto
    next
      assume "\<exists>ys zs. xs = ys @ r # zs \<and> (\<forall>y\<in>set ys. kf r < kf y) \<and> kf r < kf best"
      then obtain ys zs where s: "xs = ys @ r # zs" "\<forall>y\<in>set ys. kf r < kf y" "kf r < kf best"
        by blast
      then have "kf r < kf x" using False by linarith
      with s have "x # xs = (x # ys) @ r # zs \<and> (\<forall>y\<in>set (x # ys). kf r < kf y) \<and> kf r < kf best"
        by simp
      then show ?thesis by blast
    qed
    from run r lex alt' show ?thesis by auto
  qed
qed

lemma py_min_key_spec:
  assumes "xs \<noteq> []" and "\<forall>x\<in>set xs. key x = Inr (kf x)"
  shows "\<exists>r ys zs. py_min_key key xs = Inr r \<and> xs = ys @ r # zs
           \<and> (\<forall>y\<in>set ys. kf r < kf y) \<and> (\<forall>z\<in>set zs. kf r \<le> kf z)"
proof -
  from assms(1) obtain x rest where xs: "xs = x # rest" by (cases xs) auto
  have kx: "key x = Inr (kf x)" and rest: "\<forall>y\<in>set rest. key y = Inr (kf y)"
    using assms(2) xs by simp_all
  from min_scan_spec [OF rest, of x] obtain r where
    r: "min_scan key x (kf x) rest = Inr r" "kf r \<le> kf x" "\<forall>y\<in>set rest. kf r \<le> kf y"
    and alt: "(r = x \<and> (\<forall>y\<in>set rest. kf x \<le> kf y))
        \<or> (\<exists>ys zs. rest = ys @ r # zs \<and> (\<forall>y\<in>set ys. kf r < kf y) \<and> kf r < kf x)"
    by blast
  have run: "py_min_key key xs = Inr r"
    using xs kx r(1) by (simp add: py_min_key_def)
  show ?thesis
  proof (rule disjE [OF alt])
    assume "r = x \<and> (\<forall>y\<in>set rest. kf x \<le> kf y)"
    with xs have "xs = [] @ r # rest \<and> (\<forall>y\<in>set []. kf r < kf y) \<and> (\<forall>z\<in>set rest. kf r \<le> kf z)"
      by simp
    with run show ?thesis by blast
  next
    assume "\<exists>ys zs. rest = ys @ r # zs \<and> (\<forall>y\<in>set ys. kf r < kf y) \<and> kf r < kf x"
    then obtain ys zs where s: "rest = ys @ r # zs" "\<forall>y\<in>set ys. kf r < kf y" "kf r < kf x"
      by blast
    from s(1) r(3) have "\<forall>z\<in>set zs. kf r \<le> kf z" by simp
    with s xs have "xs = (x # ys) @ r # zs \<and> (\<forall>y\<in>set (x # ys). kf r < kf y) \<and> (\<forall>z\<in>set zs. kf r \<le> kf z)"
      by simp
    with run show ?thesis by blast
  qed
qed

lemma first_min_is_Min:
  assumes "xs = ys @ r # zs" and "\<forall>y\<in>set ys. kf r < kf y" and "\<forall>z\<in>set zs. kf r \<le> kf z"
  shows "kf r = Min (kf ` set xs)"
proof -
  have "\<forall>x\<in>set xs. kf r \<le> kf x" using assms by auto
  moreover have "kf r \<in> kf ` set xs" using assms(1) by simp
  ultimately show ?thesis
    by (intro Min_eqI [symmetric]) auto
qed

lemma sequence_err_length:
  "sequence_err ms = Inr xs \<Longrightarrow> length xs = length ms"
proof (induction ms arbitrary: xs)
  case Nil
  then show ?case by simp
next
  case (Cons m ms)
  then show ?case
    by (cases m; cases "sequence_err ms") auto
qed

lemma route_deviation_value:
  assumes "sequence_err (map coord2 route_coords) = Inr route"
    and "coord2 pickup_coords = Inr pickup" and "coord2 delivery_coords = Inr delivery"
    and "py_min_key (\<lambda>point. gd point pickup) route = Inr n1"
    and "py_min_key (\<lambda>point. gd point delivery) route = Inr n2"
    and "gd n1 pickup = Inr d1" and "gd n2 delivery = Inr d2"
  shows "calculate_route_deviation gd route_coords pickup_coords delivery_coords =
           Inr \<lparr>distance = d1 + d2, time = (d1 + d2) / 30 * 60\<rparr>"
  using assms by (simp add: calculate_route_deviation_def Let_def)

text \<open>
  C4. For a non-empty route whose points all have two coordinates, and a geodesic
  distance that is defined from every route point to the pickup and to the delivery
  point, \<open>calculate_route_deviation\<close> returns a distance equal to the minimum over
  the route points of the distance to the pickup point plus the minimum over the route
  points of the distance to the delivery point, and a time equal to
  \<open>distance / 30 * 60\<close>. The nearest point selected for either target is the first
  point of the route at minimal distance: every earlier point is strictly farther and
  no later point is nearer.
\<close>

theorem route_deviation_nearest_points:
  assumes "route_coords \<noteq> []"
    and "sequence_err (map coord2 route_coords) = Inr route"
    and "coord2 pickup_coords = Inr pickup" and "coord2 delivery_coords = Inr delivery"
    and "\<forall>p\<in>set route. gd p pickup = Inr (dp p)"
    and "\<forall>p\<in>set route. gd p delivery = Inr (dd p)"
  shows "(\<exists>dev. calculate_route_deviation gd route_coords pickup_coords delivery_coords = Inr dev
            \<and> distance dev = Min (dp ` set route) + Min (dd ` set route)
            \<and> time dev = distance dev / 30 * 60)
         \<and> (\<exists>n ys zs. py_min_key (\<lambda>point. gd point pickup) route = Inr n
               \<and> route = ys @ n # zs
               \<and> (\<forall>y\<in>set ys. dp n < dp y) \<and> (\<forall>z\<in>set zs. dp n \<le> dp z))
         \<and> (\<exists>n ys zs. py_min_key (\<lambda>point. gd point delivery) route = Inr n
               \<and> route = ys @ n # zs
               \<and> (\<forall>y\<in>set ys. dd n < dd y) \<and> (\<forall>z\<in>set zs. dd n \<le> dd z))"
proof -
  have ne: "route \<noteq> []"
    using sequence_err_length [OF assms(2)] assms(1) by auto
  from py_min_key_spec [OF ne assms(5)] obtain n1 ys1 zs1 where
    n1: "py_min_key (\<lambda>point. gd point pickup) route = Inr n1" "route = ys1 @ n1 # zs1"
      "\<forall>y\<in>set ys1. dp n1 < dp y" "\<forall>z\<in>set zs1. dp n1 \<le> dp z"
    by blast
  from py_min_key_spec [OF ne assms(6)] obtain n2 ys2 zs2 where
    n2: "py_min_key (\<lambda>point. gd point delivery) route = Inr n2" "route = ys2 @ n2 # zs2"
      "\<forall>y\<in>set ys2. dd n2 < dd y" "\<forall>z\<in>set zs2. dd n2 \<le> dd z"
    by blast
  have m1: "dp n1 = Min (dp ` set route)"
    using first_min_is_Min [OF n1(2-4)] .
  have m2: "dd n2 = Min (dd ` set route)"
    using first_min_is_Min [OF n2(2-4)] .
  have "n1 \<in> set route" using n1(2) by simp
  then have g1: "gd n1 pickup = Inr (dp n1)" using assms(5) by blast
  have "n2 \<in> set route" using n2(2) by simp
  then have g2: "gd n2 delivery = Inr (dd n2)" using assms(6) by blast
  have "calculate_route_deviation gd route_coords pickup_coords delivery_coords =
      Inr \<lparr>distance = dp n1 + dd n2, time = (dp n1 + dd n2) / 30 * 60\<rparr>"
    using route_deviation_value [OF assms(2-4) n1(1) n2(1) g1 g2] .
  then have first: "\<exists>dev. calculate_route_deviation gd route_coords pickup_coords delivery_coords = Inr dev
            \<and> distance dev = Min (dp ` set route) + Min (dd ` set route)
            \<and> time dev = distance dev / 30 * 60"
    using m1 m2 by simp
  from first n1 n2 show ?thesis by blast
qed

lemma route3_points:
  "sequence_err (map coord2 route3) = Inr [(0, 0), (1, 1), (5, 5)]"
  by (simp add: route3_def coord2_def)

lemma route3_nonempty: "route3 \<noteq> []"
  by (simp add: route3_def)

lemma pickup3: "coord2 [1, 2] = Inr (1, 2)"
  by (simp add: coord2_def)

lemma delivery3: "coord2 [4, 5] = Inr (4, 5)"
  by (simp add: coord2_def)

lemma grid_pickup3:
  "\<forall>p\<in>set [(0, 0), (1, 1), (5, 5)].
     grid_distance p (1, 2) = Inr (\<bar>fst p - 1\<bar> + \<bar>snd p - 2\<bar>)"
  by (simp add: grid_distance_def)

lemma grid_delivery3:
  "\<forall>p\<in>set [(0, 0), (1, 1), (5, 5)].
     grid_distance p (4, 5) = Inr (\<bar>fst p - 4\<bar> + \<bar>snd p - 5\<bar>)"
  by (simp add: grid_distance_def)

theorem route_deviation_nearest_points_witness:
  "route3 \<noteq> [] \<and> sequence_err (map coord2 route3) = Inr [(0, 0), (1, 1), (5, 5)]
   \<and> coord2 [1, 2] = Inr (1, 2) \<and> coord2 [4, 5] = Inr (4, 5)
   \<and> (\<exists>dev. calculate_route_deviation grid_distance route3 [1, 2] [4, 5] = Inr dev
          \<and> distance dev = 2 \<and> time dev = 4)"
proof -
  from route_deviation_nearest_points
      [OF route3_nonempty route3_points pickup3 delivery3 grid_pickup3 grid_delivery3]
  obtain dev where
    dev: "calculate_route_deviation grid_distance route3 [1, 2] [4, 5] = Inr dev"
      "distance dev = Min ((\<lambda>p. \<bar>fst p - 1\<bar> + \<bar>snd p - 2\<bar>) ` set [(0, 0), (1, 1), (5, 5)])
         + Min ((\<lambda>p. \<bar>fst p - 4\<bar> + \<bar>snd p - 5\<bar>) ` set [(0, 0), (1, 1), (5, 5)])"
      "time dev = distance dev / 30 * 60"
    by blast
  from dev(2) have d: "distance dev = 2" by simp
  with dev(3) have "time dev = 4" by simp
  with dev(1) d route3_nonempty route3_points pickup3 delivery3 show ?thesis
    by blast
qed

lemma nearest_tie_first:
  "py_min_key (\<lambda>point. grid_distance point (1, 0)) [(0, 0), (2, 0), (1, 1)] = Inr (0, 0)"
  by (simp add: py_min_key_def grid_distance_def)

section \<open>Compensation formula\<close>


lemma binary_exponent_bounds:
  assumes "x \<noteq> 0"
  shows "2 powi (binary_exponent x) \<le> \<bar>x\<bar> \<and> \<bar>x\<bar> < 2 powi (binary_exponent x + 1)"
proof (cases "1 \<le> \<bar>x\<bar>")
  case True
  define n where "n = \<lfloor>\<bar>x\<bar>\<rfloor>"
  have n: "0 < n" "of_int n \<le> \<bar>x\<bar>" "\<bar>x\<bar> < of_int n + 1"
    using True by (simp_all add: n_def)
  have e: "binary_exponent x = bitlen n - 1"
    using True by (simp add: binary_exponent_def n_def)
  have b: "2 ^ nat (bitlen n - 1) \<le> n" "n < 2 ^ nat (bitlen n)"
    using bitlen_bounds [OF n(1)] by simp_all
  have pos: "1 \<le> bitlen n"
    using n(1) by (simp add: bitlen_alt_def)
  have "2 powi (bitlen n - 1) = (2::real) ^ nat (bitlen n - 1)"
    using pos by (simp add: power_int_def)
  also have "\<dots> = of_int (2 ^ nat (bitlen n - 1))" by simp
  also have "\<dots> \<le> of_int n" using b(1) by (simp only: of_int_le_iff)
  finally have lo: "2 powi (bitlen n - 1) \<le> \<bar>x\<bar>" using n(2) by linarith
  have "n + 1 \<le> 2 ^ nat (bitlen n)" using b(2) by simp
  then have "real_of_int (n + 1) \<le> of_int (2 ^ nat (bitlen n))" by (simp only: of_int_le_iff)
  moreover have "real_of_int (2 ^ nat (bitlen n)) = 2 ^ nat (bitlen n)" by simp
  moreover have "real_of_int (n + 1) = of_int n + 1" by simp
  ultimately have "of_int n + 1 \<le> (2::real) ^ nat (bitlen n)" by linarith
  also have "\<dots> = 2 powi (bitlen n)" using pos by (simp add: power_int_def)
  finally have hi: "\<bar>x\<bar> < 2 powi (bitlen n - 1 + 1)" using n(3) by simp
  from lo hi show ?thesis unfolding e by blast
next
  case False
  define a where "a = \<bar>x\<bar>"
  have a: "0 < a" "a < 1" using assms False by (simp_all add: a_def)
  define n where "n = \<lceil>1 / a\<rceil> - 1"
  have inv: "1 < 1 / a" using a by simp
  have c: "of_int \<lceil>1 / a\<rceil> - 1 < 1 / a" "1 / a \<le> of_int \<lceil>1 / a\<rceil>"
    by linarith+
  have "1 < \<lceil>1 / a\<rceil>" using inv by (simp add: less_ceiling_iff)
  then have n: "0 < n" "of_int n < 1 / a" "1 / a \<le> of_int n + 1"
    using c by (simp_all add: n_def)
  have e: "binary_exponent x = - bitlen n"
    using False by (simp add: binary_exponent_def n_def a_def)
  have b: "2 ^ nat (bitlen n - 1) \<le> n" "n < 2 ^ nat (bitlen n)"
    using bitlen_bounds [OF n(1)] by simp_all
  have pos: "1 \<le> bitlen n"
    using n(1) by (simp add: bitlen_alt_def)
  have "n + 1 \<le> 2 ^ nat (bitlen n)" using b(2) by simp
  then have "real_of_int (n + 1) \<le> of_int (2 ^ nat (bitlen n))" by (simp only: of_int_le_iff)
  moreover have "real_of_int (2 ^ nat (bitlen n)) = 2 ^ nat (bitlen n)" by simp
  moreover have "real_of_int (n + 1) = of_int n + 1" by simp
  ultimately have "1 / a \<le> (2::real) ^ nat (bitlen n)" using n(3) by linarith
  then have "1 \<le> a * 2 ^ nat (bitlen n)" using a(1) by (simp add: field_simps)
  then have "1 / 2 ^ nat (bitlen n) \<le> a" by (simp add: field_simps)
  moreover have "2 powi (- bitlen n) = 1 / (2::real) ^ nat (bitlen n)"
    using pos by (simp add: power_int_def field_simps)
  ultimately have lo: "2 powi (- bitlen n) \<le> a" by simp
  have "real_of_int (2 ^ nat (bitlen n - 1)) \<le> of_int n" using b(1) by (simp only: of_int_le_iff)
  moreover have "real_of_int (2 ^ nat (bitlen n - 1)) = 2 ^ nat (bitlen n - 1)" by simp
  ultimately have "(2::real) ^ nat (bitlen n - 1) < 1 / a" using n(2) by linarith
  then have "a * 2 ^ nat (bitlen n - 1) < 1" using a(1) by (simp add: field_simps)
  then have "a < 1 / 2 ^ nat (bitlen n - 1)" by (simp add: field_simps)
  moreover have "2 powi (- bitlen n + 1) = 1 / (2::real) ^ nat (bitlen n - 1)"
  proof (cases "bitlen n = 1")
    case True then show ?thesis by simp
  next
    case False
    with pos have "- bitlen n + 1 < 0" by simp
    then show ?thesis
      by (simp add: power_int_def field_simps)
  qed
  ultimately have hi: "a < 2 powi (- bitlen n + 1)" by simp
  from lo hi show ?thesis unfolding e a_def by blast
qed


lemma round_half_even_cases:
  "round_half_even y = \<lfloor>y\<rfloor> \<or> round_half_even y = \<lfloor>y\<rfloor> + 1"
  by (simp add: round_half_even_def Let_def)

lemma round_half_even_int: "round_half_even (of_int n) = n"
  by (simp add: round_half_even_def)

lemma to_double_is_double:
  "\<exists>m::int. \<bar>m\<bar> \<le> 2 ^ 53
      \<and> to_double x = of_int m * 2 powi (max (binary_exponent x) (- 1022) - 52)"
proof (cases "x = 0")
  case True
  have "\<bar>0::int\<bar> \<le> 2 ^ 53
      \<and> to_double x = of_int 0 * 2 powi (max (binary_exponent x) (- 1022) - 52)"
    using True by (simp add: to_double_def)
  then show ?thesis by blast
next
  case False
  define e where "e = binary_exponent x"
  define u :: real where "u = 2 powi (max e (- 1022) - 52)"
  define m where "m = round_half_even (x / u)"
  have u: "0 < u" by (simp add: u_def)
  have "(2::real) powi (e - 52) \<le> u"
    unfolding u_def by (rule power_int_increasing) simp_all
  moreover have "2 powi (e + 1) = (2::real) powi (e - 52) * 2 ^ 53"
    using power_int_add [of "2::real" "e - 52" 53] by (simp add: add.commute)
  ultimately have "2 powi (e + 1) \<le> u * 2 ^ 53"
    by simp
  moreover have "\<bar>x\<bar> < 2 powi (e + 1)"
    using binary_exponent_bounds [OF False] by (simp add: e_def)
  ultimately have "\<bar>x\<bar> < u * 2 ^ 53" by linarith
  then have "\<bar>x\<bar> / u < 2 ^ 53"
    using u by (simp add: field_simps)
  then have y: "\<bar>x / u\<bar> < 2 ^ 53"
    using u by simp
  from y have y1: "- (2 ^ 53) < x / u" and y2: "x / u < 2 ^ 53"
    by linarith+
  have "- (2 ^ 53) \<le> \<lfloor>x / u\<rfloor>"
  proof -
    have "real_of_int (- (2 ^ 53)) = - (2 ^ 53)" by simp
    with y1 have "real_of_int (- (2 ^ 53)) \<le> x / u" by linarith
    then show ?thesis by (simp only: le_floor_iff)
  qed
  moreover have "\<lfloor>x / u\<rfloor> < 2 ^ 53"
  proof -
    have "real_of_int (2 ^ 53) = 2 ^ 53" by simp
    with y2 have "x / u < real_of_int (2 ^ 53)" by linarith
    then show ?thesis by (simp only: floor_less_iff)
  qed
  ultimately have "\<bar>m\<bar> \<le> 2 ^ 53"
    using round_half_even_cases [of "x / u"] unfolding m_def by linarith
  moreover have "to_double x = of_int m * 2 powi (max (binary_exponent x) (- 1022) - 52)"
    using False by (simp add: to_double_def m_def u_def e_def Let_def)
  ultimately show ?thesis by blast
qed







lemma float_sum_250:
  "py_round (fadd (fadd (fadd 50 (fmul (to_double 5) 10)) (fmul (to_double 10) 5)) 100) 2 = 250"
  by code_simp

text \<open>
  Where the float sum and the exact sum round differently: for weight 0.535, no
  deviation and no urgency, the float sum lies below 52.675 and the result is 52.67,
  while the exact sum 52.675 would round to 52.68.
\<close>

lemma float_sum_not_exact:
  "fadd (fadd (fadd 50 (fmul (to_double 0) 10)) (fmul (to_double 0.535) 5)) 0 < 52.675"
  "py_round (fadd (fadd (fadd 50 (fmul (to_double 0) 10)) (fmul (to_double 0.535) 5)) 0) 2
     = to_double 52.67"
  "of_int (round_half_even ((50 + 0 * 10 + 0.535 * 5 + 0) * 10 ^ 2)) / 10 ^ 2 = (52.68 :: real)"
  by code_simp+

lemma compensation_value:
  assumes "routeCoordinates car = Some rc"
    and "pickupCoordinates pkg = Some pc" and "deliveryCoordinates pkg = Some dc"
    and "calculate_route_deviation gd rc pc dc = Inr dev"
    and "dimensions pkg = Some dims" and "dims ''weight'' = Some w"
  shows "calculate_compensation gd pkg car =
           Inr (py_round (fadd (fadd (fadd 50 (fmul (to_double (distance dev)) 10))
                                  (fmul (to_double w) 5))
                            (urgency_premium (urgency pkg))) 2)"
  using assms by (simp add: calculate_compensation_def field_def getitem_def Let_def)



lemma pkg0_fields:
  "pickupCoordinates pkg0 = Some [1, 2]" "deliveryCoordinates pkg0 = Some [1, 1]"
  "dimensions pkg0 = Some parcel" "urgency pkg0 = Some ''high''"
  "pickupWindow pkg0 = Some [''09:00'', ''17:00'']"
  "deliveryWindow pkg0 = Some [''10:00'', ''12:00'']"
  "p_id pkg0 = Some ''p1''"
  by (simp_all add: pkg0_def)

lemma car0_fields:
  "routeCoordinates car0 = Some [[0, 0]]" "schedule car0 = Some sched0"
  "vehicleCapacity car0 = Some van" "rating car0 = None" "onTimeRate car0 = Some 0.9"
  "completedDeliveries car0 = None" "c_id car0 = Some ''c1''"
  by (simp_all add: car0_def)

lemma car1_fields:
  "routeCoordinates car1 = Some [[2, 3]]"
  by (simp_all add: car1_def)

lemma deviation_car0:
  "calculate_route_deviation grid_distance [[0, 0]] [1, 2] [1, 1]
     = Inr \<lparr>distance = 5, time = 10\<rparr>"
  by (simp add: calculate_route_deviation_def coord2_def py_min_key_def grid_distance_def)

lemma deviation_car1:
  "calculate_route_deviation grid_distance [[2, 3]] [1, 2] [1, 1]
     = Inr \<lparr>distance = 5, time = 10\<rparr>"
  by (simp add: calculate_route_deviation_def coord2_def py_min_key_def grid_distance_def)



text \<open>
  C9. For one package and two carriers whose routes give the same route deviation
  distance for that package, the two compensations are equal; and changing a carrier's
  id, schedule, vehicle capacity, rating, on-time rate or completed deliveries does not
  change the compensation. No predicted match score is an input of the function.
\<close>

theorem compensation_depends_on_distance_only:
  assumes "pickupCoordinates pkg = Some pc" and "deliveryCoordinates pkg = Some dc"
    and "routeCoordinates carA = Some rcA" and "routeCoordinates carB = Some rcB"
    and "calculate_route_deviation gd rcA pc dc = Inr devA"
    and "calculate_route_deviation gd rcB pc dc = Inr devB"
    and "distance devA = distance devB"
  shows "calculate_compensation gd pkg carA = calculate_compensation gd pkg carB
         \<and> calculate_compensation gd pkg
             (carA\<lparr>c_id := i, schedule := s, vehicleCapacity := v, rating := r,
                    onTimeRate := ot, completedDeliveries := cd\<rparr>)
           = calculate_compensation gd pkg carA"
proof
  show "calculate_compensation gd pkg carA = calculate_compensation gd pkg carB"
    using assms by (simp add: calculate_compensation_def field_def Let_def)
  show "calculate_compensation gd pkg
             (carA\<lparr>c_id := i, schedule := s, vehicleCapacity := v, rating := r,
                    onTimeRate := ot, completedDeliveries := cd\<rparr>)
           = calculate_compensation gd pkg carA"
    by (simp add: calculate_compensation_def)
qed

theorem compensation_depends_on_distance_only_witness:
  "pickupCoordinates pkg0 = Some [1, 2] \<and> deliveryCoordinates pkg0 = Some [1, 1]
   \<and> routeCoordinates car0 = Some [[0, 0]] \<and> routeCoordinates car1 = Some [[2, 3]]
   \<and> calculate_route_deviation grid_distance [[0, 0]] [1, 2] [1, 1]
        = Inr \<lparr>distance = 5, time = 10\<rparr>
   \<and> calculate_route_deviation grid_distance [[2, 3]] [1, 2] [1, 1]
        = Inr \<lparr>distance = 5, time = 10\<rparr>
   \<and> rating car0 \<noteq> rating car1
   \<and> calculate_compensation grid_distance pkg0 car0
       = calculate_compensation grid_distance pkg0 car1"
proof -
  have d: "distance \<lparr>distance = 5, time = 10\<rparr> = distance \<lparr>distance = 5, time = 10\<rparr>"
    by simp
  have r: "rating car0 \<noteq> rating car1"
    by (simp add: car0_def car1_def)
  from compensation_depends_on_distance_only
      [OF pkg0_fields(1) pkg0_fields(2) car0_fields(1) car1_fields(1)
        deviation_car0 deviation_car1 d]
    pkg0_fields(1,2) car0_fields(1) car1_fields(1) deviation_car0 deviation_car1 r
  show ?thesis by blast
qed

section \<open>Feature vector\<close>

lemma pbind_eq_Inr: "pbind m f = Inr y \<longleftrightarrow> (\<exists>x. m = Inr x \<and> f x = Inr y)"
  by (cases m) simp_all

lemma extract_features_length:
  "extract_features gd pkg car = Inr fs \<Longrightarrow> length fs = 7"
  by (auto simp: extract_features_def pbind_eq_Inr Let_def)

lemma extract_features_value:
  assumes "routeCoordinates car = Some rc"
    and "pickupCoordinates pkg = Some pc" and "deliveryCoordinates pkg = Some dc"
    and "calculate_route_deviation gd rc pc dc = Inr dev"
    and "schedule car = Some sch"
    and "pickupWindow pkg = Some pw" and "deliveryWindow pkg = Some dw"
    and "calculate_time_compatibility sch pw dw = Inr tc"
    and "vehicleCapacity car = Some vc" and "dimensions pkg = Some dims"
    and "evaluate_size_compatibility vc dims = Inr sc"
  shows "extract_features gd pkg car =
           Inr [distance dev, time dev, tc, sc,
                (case rating car of None \<Rightarrow> 0 | Some x \<Rightarrow> x),
                (case onTimeRate car of None \<Rightarrow> 0 | Some x \<Rightarrow> x),
                real (case completedDeliveries car of None \<Rightarrow> 0 | Some ds \<Rightarrow> length ds)]"
  using assms
  by (simp add: extract_features_def field_def get_default_def Let_def split: option.splits)

text \<open>
  C7. When the route deviation, the time compatibility and the size compatibility are
  computed, \<open>extract_features\<close> returns a vector of exactly seven elements: the
  deviation distance, the deviation time, the time compatibility, the size
  compatibility, the rating, the on-time rate and the number of completed deliveries,
  with 0, 0 and 0 (the empty list) where the rating, the on-time rate or the completed
  deliveries are absent. Every vector the function returns, for any package and
  carrier, has length seven.
\<close>

theorem feature_vector_layout:
  assumes "routeCoordinates car = Some rc"
    and "pickupCoordinates pkg = Some pc" and "deliveryCoordinates pkg = Some dc"
    and "calculate_route_deviation gd rc pc dc = Inr dev"
    and "schedule car = Some sch"
    and "pickupWindow pkg = Some pw" and "deliveryWindow pkg = Some dw"
    and "calculate_time_compatibility sch pw dw = Inr tc"
    and "vehicleCapacity car = Some vc" and "dimensions pkg = Some dims"
    and "evaluate_size_compatibility vc dims = Inr sc"
  shows "(\<exists>fs. extract_features gd pkg car = Inr fs \<and> length fs = 7
            \<and> fs ! 0 = distance dev \<and> fs ! 1 = time dev \<and> fs ! 2 = tc \<and> fs ! 3 = sc
            \<and> fs ! 4 = (case rating car of None \<Rightarrow> 0 | Some x \<Rightarrow> x)
            \<and> fs ! 5 = (case onTimeRate car of None \<Rightarrow> 0 | Some x \<Rightarrow> x)
            \<and> fs ! 6 = real (case completedDeliveries car of
                               None \<Rightarrow> 0 | Some ds \<Rightarrow> length ds))
         \<and> (\<forall>pkg' car' fs'. extract_features gd pkg' car' = Inr fs' \<longrightarrow> length fs' = 7)"
proof
  show "\<exists>fs. extract_features gd pkg car = Inr fs \<and> length fs = 7
            \<and> fs ! 0 = distance dev \<and> fs ! 1 = time dev \<and> fs ! 2 = tc \<and> fs ! 3 = sc
            \<and> fs ! 4 = (case rating car of None \<Rightarrow> 0 | Some x \<Rightarrow> x)
            \<and> fs ! 5 = (case onTimeRate car of None \<Rightarrow> 0 | Some x \<Rightarrow> x)
            \<and> fs ! 6 = real (case completedDeliveries car of
                               None \<Rightarrow> 0 | Some ds \<Rightarrow> length ds)"
    unfolding extract_features_value [OF assms] by simp
  show "\<forall>pkg' car' fs'. extract_features gd pkg' car' = Inr fs' \<longrightarrow> length fs' = 7"
    using extract_features_length by blast
qed


lemma time_compat0:
  "calculate_time_compatibility sched0 [''09:00'', ''17:00''] [''10:00'', ''12:00'']
     = Inr (1 / 4)"
  using time_compatibility_value [OF sched0_start sched0_end overlap_quarter overlap_full]
  by simp

lemma size_compat0: "evaluate_size_compatibility van parcel = Inr (4 / 5)"
  using size_fit [OF van_keys parcel_keys] by simp

theorem feature_vector_layout_witness:
  "routeCoordinates car0 = Some [[0, 0]] \<and> pickupCoordinates pkg0 = Some [1, 2]
   \<and> deliveryCoordinates pkg0 = Some [1, 1]
   \<and> schedule car0 = Some sched0 \<and> vehicleCapacity car0 = Some van
   \<and> dimensions pkg0 = Some parcel
   \<and> rating car0 = None \<and> onTimeRate car0 = Some 0.9 \<and> completedDeliveries car0 = None
   \<and> (\<exists>fs. extract_features grid_distance pkg0 car0 = Inr fs \<and> length fs = 7
          \<and> fs ! 0 = 5 \<and> fs ! 1 = 10 \<and> fs ! 2 = 1 / 4 \<and> fs ! 3 = 4 / 5
          \<and> fs ! 4 = 0 \<and> fs ! 5 = 0.9 \<and> fs ! 6 = 0)"
  using feature_vector_layout [OF car0_fields(1) pkg0_fields(1) pkg0_fields(2) deviation_car0
      car0_fields(2) pkg0_fields(5) pkg0_fields(6) time_compat0 car0_fields(3) pkg0_fields(3)
      size_compat0]
    car0_fields(1-6) pkg0_fields(1-3)
  by simp

section \<open>The failure boundary of the entry points\<close>

lemma predict_match_cases:
  "predict_match gd lp lc lm pp mp pj cj =
     (case predict_match_try gd lp lc lm pp mp pj cj of
        Inr r \<Rightarrow> MatchJson r | Inl e \<Rightarrow> ErrorJson e)"
  by (simp add: predict_match_def)










lemma sample_inputs:
  "sample_loads_package ''not json'' = Inl (ExternalError ''JSONDecodeError'')"
  "sample_loads_package ''pkg0'' = Inr pkg0"
  "sample_loads_carrier ''car0'' = Inr car0"
  "sample_load_model ''missing.joblib'' = Inl (ExternalError ''FileNotFoundError'')"
  "sample_load_training [] ''train.json'' = Inl (ExternalError ''FileNotFoundError'')"
  by (simp_all add: sample_loads_package_def sample_loads_carrier_def sample_load_model_def
      sample_load_training_def)


text \<open>The two entry points on the sample data, when nothing fails.\<close>

lemma predict_match_sample:
  "predict_match grid_distance sample_loads_package sample_loads_carrier sample_load_model
        sample_predict_proba ''model.joblib'' ''pkg0'' ''car0''
     = MatchJson \<lparr>carrierId = ''c1'', packageId = ''p1'', matchScore = 1 / 2,
                  compensation = 250,
                  routeDeviation = \<lparr>distance = 5, time = 10\<rparr>\<rparr>"
proof -
  have f: "\<exists>fs. extract_features grid_distance pkg0 car0 = Inr fs"
    using extract_features_value [OF car0_fields(1) pkg0_fields(1) pkg0_fields(2) deviation_car0
      car0_fields(2) pkg0_fields(5) pkg0_fields(6) time_compat0 car0_fields(3) pkg0_fields(3)
      size_compat0] by blast
  have c: "calculate_compensation grid_distance pkg0 car0 = Inr 250"
    using compensation_value [OF car0_fields(1) pkg0_fields(1) pkg0_fields(2) deviation_car0
      pkg0_fields(3) parcel_keys(4)]
    by (simp add: pkg0_fields urgency_premium_def float_sum_250)
  from f c show ?thesis
    by (auto simp: predict_match_def predict_match_try_def sample_inputs sample_load_model_def
        sample_predict_proba_def field_def car0_fields pkg0_fields deviation_car0)
qed

lemma train_model_sample:
  "train_model grid_distance sample_load_training sample_fit sample_dump [''train.json'']
        ''train.json'' ''model.joblib''
     = (SuccessJson ''Model trained successfully'', [''model.joblib'', ''train.json''])"
proof -
  obtain fs where f: "extract_features grid_distance pkg0 car0 = Inr fs"
    using extract_features_value [OF car0_fields(1) pkg0_fields(1) pkg0_fields(2) deviation_car0
      car0_fields(2) pkg0_fields(5) pkg0_fields(6) time_compat0 car0_fields(3) pkg0_fields(3)
      size_compat0] by blast
  then show ?thesis
    by (simp add: train_model_def train_model_try_def sample_load_training_def field_def
        sample_fit_def sample_dump_def)
qed

end
